theory Spec2Isabelle
  imports Complex_Main "HOL-Library.Multiset"
begin

section \<open>The profile page of the sports-betting client\<close>

text \<open>
  A shallow embedding of \<^verbatim>\<open>src/app/profile/page.tsx\<close>: the add-funds dialog
  (\<^verbatim>\<open>AddFundsModal.handleSubmit\<close>), the data loader of the page
  (\<^verbatim>\<open>fetchUserData\<close>), the balance update (\<^verbatim>\<open>handleAddFunds\<close>) and the parts of
  the rendering that depend on the loaded data.  React state is a record that each handler
  takes and returns; an exception is the left summand of a result; the document database is
  a record of its three collections.
\<close>

subsection \<open>JavaScript numbers\<close>

text \<open>
  A JavaScript \<^verbatim>\<open>number\<close> is NaN, an infinity or a finite value.  Finite values are
  kept as exact rationals: the rounding of IEEE doubles, and the sign of zero, are not
  modelled.
\<close>

datatype number = NaN | NegInf | PosInf | Num rat

fun isNaN :: "number \<Rightarrow> bool" where
  "isNaN NaN = True"
| "isNaN _ = False"

text \<open>\<^verbatim>\<open>a + b\<close> on numbers.\<close>

fun js_add :: "number \<Rightarrow> number \<Rightarrow> number" where
  "js_add NaN _ = NaN"
| "js_add _ NaN = NaN"
| "js_add PosInf NegInf = NaN"
| "js_add NegInf PosInf = NaN"
| "js_add PosInf _ = PosInf"
| "js_add _ PosInf = PosInf"
| "js_add NegInf _ = NegInf"
| "js_add _ NegInf = NegInf"
| "js_add (Num a) (Num b) = Num (a + b)"

text \<open>\<^verbatim>\<open>a <= b\<close> on numbers: every comparison with NaN is false.\<close>

fun js_le :: "number \<Rightarrow> number \<Rightarrow> bool" where
  "js_le NaN _ = False"
| "js_le _ NaN = False"
| "js_le NegInf _ = True"
| "js_le _ PosInf = True"
| "js_le PosInf _ = False"
| "js_le _ NegInf = False"
| "js_le (Num a) (Num b) = (a \<le> b)"

text \<open>
  \<^verbatim>\<open>x || 0\<close> where \<^verbatim>\<open>x\<close> is a number field that may be absent: an absent
  field (\<^verbatim>\<open>undefined\<close>), NaN and zero are falsy.
\<close>

fun or_zero :: "number option \<Rightarrow> number" where
  "or_zero None = Num 0"
| "or_zero (Some NaN) = Num 0"
| "or_zero (Some (Num r)) = (if r = 0 then Num 0 else Num r)"
| "or_zero (Some x) = x"

subsection \<open>The built-in \<^verbatim>\<open>parseFloat\<close>\<close>

text \<open>
  \<^verbatim>\<open>parseFloat\<close> is the ECMAScript built-in, not code of the page.  It skips leading
  white space and reads the longest prefix that is a decimal literal: an optional sign, then
  \<^verbatim>\<open>Infinity\<close>, or digits with an optional fraction and an optional exponent.  With
  no such prefix it yields NaN.  Strings are byte strings here, so only the ASCII white
  space characters are skipped, and the value read is exact (no rounding, no overflow to
  an infinity).
\<close>

definition digitVal :: "char \<Rightarrow> nat option" where
  "digitVal c =
     map_of
       [(CHR ''0'', 0), (CHR ''1'', 1), (CHR ''2'', 2), (CHR ''3'', 3), (CHR ''4'', 4),
        (CHR ''5'', 5), (CHR ''6'', 6), (CHR ''7'', 7), (CHR ''8'', 8), (CHR ''9'', 9)] c"

definition isWhiteSpace :: "char \<Rightarrow> bool" where
  "isWhiteSpace c \<longleftrightarrow>
     c = CHR '' '' \<or> c = CHR 0x09 \<or> c = CHR 0x0A \<or> c = CHR 0x0B \<or> c = CHR 0x0C \<or> c = CHR 0x0D"

text \<open>The leading digits of a string, as their values, and the rest of the string.\<close>

fun takeDigits :: "string \<Rightarrow> nat list \<times> string" where
  "takeDigits [] = ([], [])"
| "takeDigits (c # cs) =
     (case digitVal c of
        None \<Rightarrow> ([], c # cs)
      | Some d \<Rightarrow> (case takeDigits cs of (ds, rest) \<Rightarrow> (d # ds, rest)))"

definition decimalValue :: "nat list \<Rightarrow> nat" where
  "decimalValue ds = foldl (\<lambda>a d. 10 * a + d) 0 ds"

text \<open>
  The exponent part after the mantissa: \<^verbatim>\<open>e\<close> or \<^verbatim>\<open>E\<close>, an optional sign and at
  least one digit.  Without a digit the exponent is not part of the literal.
\<close>

definition exponentPart :: "string \<Rightarrow> int" where
  "exponentPart s =
     (case s of
        [] \<Rightarrow> 0
      | c # cs \<Rightarrow>
          if c = CHR ''e'' \<or> c = CHR ''E'' then
            (case cs of
               [] \<Rightarrow> 0
             | d # ds \<Rightarrow>
                 if d = CHR ''-'' then
                   (case takeDigits ds of (es, _) \<Rightarrow> if es = [] then 0 else - int (decimalValue es))
                 else if d = CHR ''+'' then
                   (case takeDigits ds of (es, _) \<Rightarrow> if es = [] then 0 else int (decimalValue es))
                 else
                   (case takeDigits cs of (es, _) \<Rightarrow> int (decimalValue es)))
          else 0)"

definition scale10 :: "rat \<Rightarrow> int \<Rightarrow> rat" where
  "scale10 m e = (if 0 \<le> e then m * 10 ^ nat e else m / 10 ^ nat (- e))"

text \<open>An unsigned decimal literal at the start of the string, if there is one.\<close>

definition unsignedLiteral :: "string \<Rightarrow> rat option" where
  "unsignedLiteral s =
     (case takeDigits s of
        (ip, rest) \<Rightarrow>
          (case rest of
             [] \<Rightarrow> if ip = [] then None else Some (of_nat (decimalValue ip))
           | c # cs \<Rightarrow>
               if c = CHR ''.'' then
                 (case takeDigits cs of
                    (fp, rest') \<Rightarrow>
                      if ip = [] \<and> fp = [] then None
                      else Some (scale10 (of_nat (decimalValue (ip @ fp)))
                                   (exponentPart rest' - int (length fp))))
               else if ip = [] then None
               else Some (scale10 (of_nat (decimalValue ip)) (exponentPart rest))))"

definition strDecimalLiteral :: "bool \<Rightarrow> string \<Rightarrow> number" where
  "strDecimalLiteral negative s =
     (if take 8 s = ''Infinity'' then (if negative then NegInf else PosInf)
      else (case unsignedLiteral s of
              None \<Rightarrow> NaN
            | Some r \<Rightarrow> Num (if negative then - r else r)))"

definition parseFloat :: "string \<Rightarrow> number" where
  "parseFloat s =
     (case dropWhile isWhiteSpace s of
        [] \<Rightarrow> NaN
      | c # cs \<Rightarrow>
          if c = CHR ''-'' then strDecimalLiteral True cs
          else if c = CHR ''+'' then strDecimalLiteral False cs
          else strDecimalLiteral False (c # cs))"

subsection \<open>Documents and the page's data\<close>

text \<open>
  \<^verbatim>\<open>Event\<close> is imported from \<^verbatim>\<open>@/types/events\<close>; the page reads the two teams of
  an event, and of a team its full name and its abbreviation
  (field \<^verbatim>\<open>abbreviation\<close> in the source).
\<close>

record Team =
  full_name :: string
  team_abbreviation :: string

record Event =
  home_team :: Team
  visitor_team :: Team

text \<open>
  A Firestore \<^verbatim>\<open>Timestamp\<close> is read by the page only through
  \<^verbatim>\<open>toDate()\<close>; a timestamp is kept as the time value of that date, in milliseconds.
\<close>

datatype Timestamp = Timestamp (getTime: int)

datatype SelectedTeam = home | visitor

text \<open>
  \<^verbatim>\<open>Omit<Trade, 'id'>\<close>, the data of a trade document, and \<^verbatim>\<open>Trade\<close>, which
  adds the document id (\<^verbatim>\<open>id\<close> in the source) and the joined event.
\<close>

record TradeData =
  amount :: number
  expectedPayout :: number
  createdAt :: Timestamp
  eventId :: string
  selectedTeam :: SelectedTeam
  status :: string
  userId :: string

record Trade = TradeData +
  trade_id :: string
  event :: "Event option"

text \<open>
  \<^verbatim>\<open>UserData\<close>.  The loader guards both fields with \<^verbatim>\<open>||\<close>, so a user document
  may lack either.
\<close>

record UserData =
  trades :: "string list option"
  walletBalance :: "number option"

text \<open>The signed-in user of \<^verbatim>\<open>useAuth()\<close>; \<^verbatim>\<open>None\<close> is \<^verbatim>\<open>null\<close>.\<close>

record User =
  uid :: string
  displayName :: "string option"
  email :: "string option"
  photoURL :: "string option"

datatype exn = Error string | FirestoreError string

subsection \<open>The document database\<close>

text \<open>
  The database is its three collections, each a map from document id to document.  A
  request is a read or an update of one document, named by collection and id.
  \<^verbatim>\<open>getDoc\<close> and \<^verbatim>\<open>updateDoc\<close> reject when the network or the backend fails:
  \<open>fault\<close> says which requests do.  A read that does not fail returns a snapshot, which
  exists (\<open>Some\<close>) or not (\<open>None\<close>).
\<close>

datatype Request = GetDoc string string | UpdateDoc string string

record Firestore =
  users_col :: "string \<rightharpoonup> UserData"
  trades_col :: "string \<rightharpoonup> TradeData"
  events_col :: "string \<rightharpoonup> Event"
  fault :: "Request \<Rightarrow> bool"

definition getDoc_users :: "Firestore \<Rightarrow> string \<Rightarrow> exn + UserData option" where
  "getDoc_users db i =
     (if fault db (GetDoc ''users'' i) then Inl (FirestoreError ''unavailable'')
      else Inr (users_col db i))"

definition getDoc_trades :: "Firestore \<Rightarrow> string \<Rightarrow> exn + TradeData option" where
  "getDoc_trades db i =
     (if fault db (GetDoc ''trades'' i) then Inl (FirestoreError ''unavailable'')
      else Inr (trades_col db i))"

definition getDoc_events :: "Firestore \<Rightarrow> string \<Rightarrow> exn + Event option" where
  "getDoc_events db i =
     (if fault db (GetDoc ''events'' i) then Inl (FirestoreError ''unavailable'')
      else Inr (events_col db i))"

text \<open>
  \<^verbatim>\<open>updateDoc(userRef, {walletBalance: newBalance})\<close>: sets the field of an existing
  user document, and rejects when there is no such document.
\<close>

definition updateDoc_walletBalance :: "Firestore \<Rightarrow> string \<Rightarrow> number \<Rightarrow> exn + Firestore" where
  "updateDoc_walletBalance db i newBalance =
     (if fault db (UpdateDoc ''users'' i) then Inl (FirestoreError ''unavailable'')
      else (case users_col db i of
              None \<Rightarrow> Inl (FirestoreError ''not-found'')
            | Some userData \<Rightarrow>
                Inr (db\<lparr>users_col := (users_col db)(i \<mapsto> userData\<lparr>walletBalance := Some newBalance\<rparr>)\<rparr>)))"

subsection \<open>The state of the page and the loader\<close>

text \<open>
  The four \<^verbatim>\<open>useState\<close> cells of \<^verbatim>\<open>ProfilePage\<close>.  A fresh page starts with no
  trades, \<^verbatim>\<open>loading\<close> set, balance 0 and the dialog closed.
\<close>

record PageState =
  st_trades :: "Trade list"
  st_loading :: bool
  st_walletBalance :: number
  st_isAddFundsModalOpen :: bool

definition initialPage :: PageState where
  "initialPage =
     \<lparr>st_trades = [], st_loading = True, st_walletBalance = Num 0, st_isAddFundsModalOpen = False\<rparr>"

text \<open>The object pushed onto \<^verbatim>\<open>tradesData\<close> for a trade document and its event.\<close>

definition mkTrade :: "string \<Rightarrow> TradeData \<Rightarrow> Event option \<Rightarrow> Trade" where
  "mkTrade i tradeData eventData =
     \<lparr>amount = amount tradeData, expectedPayout = expectedPayout tradeData,
      createdAt = createdAt tradeData, eventId = eventId tradeData,
      selectedTeam = selectedTeam tradeData, status = status tradeData,
      userId = userId tradeData, trade_id = i, event = eventData\<rparr>"

text \<open>
  The loop over \<^verbatim>\<open>userTrades\<close>.  It returns the trades assembled, or the exception of
  the first read that fails, and the requests it has issued, in order.
\<close>

fun fetchTrades :: "Firestore \<Rightarrow> string list \<Rightarrow> Trade list \<Rightarrow> (exn + Trade list) \<times> Request list" where
  "fetchTrades db [] tradesData = (Inr tradesData, [])"
| "fetchTrades db (tradeId # rest) tradesData =
     (case getDoc_trades db tradeId of
        Inl e \<Rightarrow> (Inl e, [GetDoc ''trades'' tradeId])
      | Inr None \<Rightarrow>
          (case fetchTrades db rest tradesData of
             (r, reqs) \<Rightarrow> (r, GetDoc ''trades'' tradeId # reqs))
      | Inr (Some tradeData) \<Rightarrow>
          (case getDoc_events db (eventId tradeData) of
             Inl e \<Rightarrow> (Inl e, [GetDoc ''trades'' tradeId, GetDoc ''events'' (eventId tradeData)])
           | Inr eventData \<Rightarrow>
               (case fetchTrades db rest (tradesData @ [mkTrade tradeId tradeData eventData]) of
                  (r, reqs) \<Rightarrow>
                    (r, GetDoc ''trades'' tradeId # GetDoc ''events'' (eventId tradeData) # reqs))))"

text \<open>
  \<^verbatim>\<open>tradesData.sort((a, b) => b.createdAt.toDate().getTime() - a.createdAt.toDate().getTime())\<close>:
  the comparator, and a stable sort by it (\<^verbatim>\<open>Array.prototype.sort\<close> is stable), written
  as an insertion sort that puts \<open>x\<close> before the first element it does not have to follow.
\<close>

definition compareTrades :: "Trade \<Rightarrow> Trade \<Rightarrow> int" where
  "compareTrades a b = getTime (createdAt b) - getTime (createdAt a)"

fun insertBy :: "('a \<Rightarrow> 'a \<Rightarrow> int) \<Rightarrow> 'a \<Rightarrow> 'a list \<Rightarrow> 'a list" where
  "insertBy cmp x [] = [x]"
| "insertBy cmp x (y # ys) = (if cmp x y \<le> 0 then x # y # ys else y # insertBy cmp x ys)"

definition sortBy :: "('a \<Rightarrow> 'a \<Rightarrow> int) \<Rightarrow> 'a list \<Rightarrow> 'a list" where
  "sortBy cmp xs = foldr (insertBy cmp) xs []"

text \<open>
  The \<^verbatim>\<open>try\<close> block of \<^verbatim>\<open>fetchUserData\<close> for a signed-in user: the new state, the
  exception thrown if any, and the requests issued.  The state setters that ran before an
  exception keep their effect.
\<close>

definition fetchUserData_try :: "Firestore \<Rightarrow> User \<Rightarrow> PageState \<Rightarrow> (exn + unit) \<times> PageState \<times> Request list" where
  "fetchUserData_try db user st =
     (case getDoc_users db (uid user) of
        Inl e \<Rightarrow> (Inl e, st, [GetDoc ''users'' (uid user)])
      | Inr None \<Rightarrow> (Inr (), st\<lparr>st_loading := False\<rparr>, [GetDoc ''users'' (uid user)])
      | Inr (Some userData) \<Rightarrow>
          (let st1 = st\<lparr>st_walletBalance := or_zero (walletBalance userData)\<rparr>;
               userTrades = (case trades userData of None \<Rightarrow> [] | Some ids \<Rightarrow> ids)
           in case fetchTrades db userTrades [] of
                (Inl e, reqs) \<Rightarrow> (Inl e, st1, GetDoc ''users'' (uid user) # reqs)
              | (Inr tradesData, reqs) \<Rightarrow>
                  (Inr (), st1\<lparr>st_trades := sortBy compareTrades tradesData\<rparr>,
                   GetDoc ''users'' (uid user) # reqs)))"

text \<open>
  \<^verbatim>\<open>fetchUserData\<close>, one load cycle: without a user it only clears \<^verbatim>\<open>loading\<close>;
  otherwise the \<^verbatim>\<open>try\<close> block runs, \<^verbatim>\<open>catch\<close> logs and swallows the exception, and
  \<^verbatim>\<open>finally\<close> clears \<^verbatim>\<open>loading\<close>.  The result is the state after the cycle and the
  requests the cycle issued.
\<close>

definition fetchUserData :: "Firestore \<Rightarrow> User option \<Rightarrow> PageState \<Rightarrow> PageState \<times> Request list" where
  "fetchUserData db user st =
     (case user of
        None \<Rightarrow> (st\<lparr>st_loading := False\<rparr>, [])
      | Some u \<Rightarrow>
          (case fetchUserData_try db u st of
             (_, st', reqs) \<Rightarrow> (st'\<lparr>st_loading := False\<rparr>, reqs)))"

subsection \<open>The balance update\<close>

text \<open>
  \<^verbatim>\<open>handleAddFunds\<close>.  It throws without a user; otherwise it adds the amount to the
  balance the page holds, writes the sum to the user document and, once the write has
  succeeded, stores it in the page.  The \<^verbatim>\<open>catch\<close> rethrows.
\<close>

definition handleAddFunds :: "User option \<Rightarrow> number \<Rightarrow> PageState \<times> Firestore \<Rightarrow> (exn + unit) \<times> PageState \<times> Firestore" where
  "handleAddFunds user amnt w =
     (case w of
        (st, db) \<Rightarrow>
          (case user of
             None \<Rightarrow> (Inl (Error ''User not found''), st, db)
           | Some u \<Rightarrow>
               (let newBalance = js_add (st_walletBalance st) amnt
                in case updateDoc_walletBalance db (uid u) newBalance of
                     Inl e \<Rightarrow> (Inl e, st, db)
                   | Inr db' \<Rightarrow> (Inr (), st\<lparr>st_walletBalance := newBalance\<rparr>, db'))))"

subsection \<open>The add-funds dialog\<close>

text \<open>The three \<^verbatim>\<open>useState\<close> cells of \<^verbatim>\<open>AddFundsModal\<close>.\<close>

record ModalState =
  m_amount :: string
  m_isLoading :: bool
  m_error :: string

text \<open>
  \<^verbatim>\<open>handleSubmit\<close>.  The two callbacks of the dialog act on the state \<open>'w\<close> of whoever
  supplies them: \<^verbatim>\<open>onAddFunds\<close> may throw, \<^verbatim>\<open>onClose\<close> does not.
\<close>

definition handleSubmit :: "(number \<Rightarrow> 'w \<Rightarrow> (exn + unit) \<times> 'w) \<Rightarrow> ('w \<Rightarrow> 'w) \<Rightarrow> ModalState \<times> 'w \<Rightarrow> ModalState \<times> 'w" where
  "handleSubmit onAddFunds onClose mw =
     (case mw of
        (m, w) \<Rightarrow>
          (let m1 = m\<lparr>m_error := [], m_isLoading := True\<rparr>;
               numAmount = parseFloat (m_amount m)
           in if isNaN numAmount \<or> js_le numAmount (Num 0) then
                (m1\<lparr>m_error := ''Please enter a valid amount'', m_isLoading := False\<rparr>, w)
              else
                (case onAddFunds numAmount w of
                   (Inr _, w') \<Rightarrow> (m1\<lparr>m_amount := [], m_isLoading := False\<rparr>, onClose w')
                 | (Inl e, w') \<Rightarrow>
                     (m1\<lparr>m_error := ''Failed to add funds. Please try again.'',
                         m_isLoading := False\<rparr>, w'))))"

text \<open>
  The dialog as \<^verbatim>\<open>ProfilePage\<close> mounts it: \<^verbatim>\<open>onAddFunds\<close> is
  \<^verbatim>\<open>handleAddFunds\<close> and \<^verbatim>\<open>onClose\<close> clears \<^verbatim>\<open>isAddFundsModalOpen\<close>.
\<close>

definition closeModal :: "PageState \<times> Firestore \<Rightarrow> PageState \<times> Firestore" where
  "closeModal w = (case w of (st, db) \<Rightarrow> (st\<lparr>st_isAddFundsModalOpen := False\<rparr>, db))"

definition submitAddFunds :: "User option \<Rightarrow> ModalState \<times> PageState \<times> Firestore \<Rightarrow> ModalState \<times> PageState \<times> Firestore" where
  "submitAddFunds user = handleSubmit (handleAddFunds user) closeModal"

text \<open>
  Callbacks that only record their calls, to observe what a submit invokes: the supplied
  operation fails with \<open>outcome n = Some e\<close> and succeeds with \<open>None\<close>.
\<close>

datatype Call = OnAddFunds number | OnClose

definition recordAddFunds :: "(number \<Rightarrow> exn option) \<Rightarrow> number \<Rightarrow> Call list \<Rightarrow> (exn + unit) \<times> Call list" where
  "recordAddFunds outcome n calls =
     ((case outcome n of None \<Rightarrow> Inr () | Some e \<Rightarrow> Inl e), calls @ [OnAddFunds n])"

definition recordClose :: "Call list \<Rightarrow> Call list" where
  "recordClose calls = calls @ [OnClose]"

subsection \<open>Rendering\<close>

text \<open>The two counts of the trade record, and the text of its three spans.\<close>

definition tradeRecord :: "Trade list \<Rightarrow> nat \<times> nat" where
  "tradeRecord ts =
     (length (filter (\<lambda>t. status t = ''won'') ts), length (filter (\<lambda>t. status t = ''lost'') ts))"

fun showNat :: "nat \<Rightarrow> string" where
  "showNat n = (if n < 10 then [''0123456789'' ! n] else showNat (n div 10) @ [''0123456789'' ! (n mod 10)])"

declare showNat.simps [simp del]

definition tradeRecordText :: "Trade list \<Rightarrow> string list" where
  "tradeRecordText ts =
     (case tradeRecord ts of (w, l) \<Rightarrow> [showNat w @ ''W'', ''-'', showNat l @ ''L''])"

text \<open>
  What an entry of the trade list shows of the event: the properties handed to
  \<^verbatim>\<open>TeamLogo\<close> (abbreviation and team name) when the logo block is rendered, the team
  label, and the fixture line.
\<close>

record TradeEntry =
  entry_id :: string
  entry_logo :: "(string \<times> string) option"
  entry_teamLabel :: string
  entry_status :: string
  entry_fixture :: "string option"

definition renderTrade :: "Trade \<Rightarrow> TradeEntry" where
  "renderTrade trade =
     \<lparr>entry_id = trade_id trade,
      entry_logo =
        (case event trade of
           None \<Rightarrow> None
         | Some ev \<Rightarrow>
             Some (if selectedTeam trade = home then team_abbreviation (home_team ev)
                   else team_abbreviation (visitor_team ev),
                   if selectedTeam trade = home then full_name (home_team ev)
                   else full_name (visitor_team ev))),
      entry_teamLabel =
        (case event trade of
           Some ev \<Rightarrow>
             (if selectedTeam trade = home then full_name (home_team ev)
              else full_name (visitor_team ev))
         | None \<Rightarrow> ''Unknown Team''),
      entry_status = status trade,
      entry_fixture =
        (case event trade of
           None \<Rightarrow> None
         | Some ev \<Rightarrow> Some (full_name (home_team ev) @ '' vs '' @ full_name (visitor_team ev)))\<rparr>"

text \<open>
  The three views of \<^verbatim>\<open>ProfilePage\<close>, in the order the component tests for them.  An
  empty entry list stands for the message shown when there are no trades.
\<close>

datatype View =
    SignInPrompt
  | LoadingSkeleton
  | Profile (view_record: "string list") (view_balance: number) (view_entries: "TradeEntry list")

definition render :: "User option \<Rightarrow> PageState \<Rightarrow> View" where
  "render user st =
     (if user = None then SignInPrompt
      else if st_loading st then LoadingSkeleton
      else Profile (tradeRecordText (st_trades st)) (st_walletBalance st)
             (map renderTrade (st_trades st)))"

subsection \<open>The join the loader computes\<close>

text \<open>
  Described from the database alone: the trade ids of the account that have a trade
  document, each with the event its document names, in the order of the ids.
\<close>

fun joinTrades :: "Firestore \<Rightarrow> string list \<Rightarrow> Trade list" where
  "joinTrades db [] = []"
| "joinTrades db (i # ids) =
     (case trades_col db i of
        None \<Rightarrow> joinTrades db ids
      | Some tradeData \<Rightarrow> mkTrade i tradeData (events_col db (eventId tradeData)) # joinTrades db ids)"

definition userTradeIds :: "UserData \<Rightarrow> string list" where
  "userTradeIds userData = (case trades userData of None \<Rightarrow> [] | Some ids \<Rightarrow> ids)"

definition newestFirst :: "Trade list \<Rightarrow> bool" where
  "newestFirst ts = sorted_wrt (\<lambda>a b. getTime (createdAt b) \<le> getTime (createdAt a)) ts"

subsection \<open>Example data\<close>

text \<open>
  An account with four trades and one dangling trade id; the event of the second trade is
  missing.  The trades were created at times 1000, 3000, 2000 and 500.
\<close>

definition exampleUser :: User where
  "exampleUser =
     \<lparr>uid = ''u1'', displayName = Some ''Ann'', email = Some ''ann@example.org'', photoURL = None\<rparr>"

definition exampleEvent :: Event where
  "exampleEvent =
     \<lparr>home_team = \<lparr>full_name = ''Houston Rockets'', team_abbreviation = ''HOU''\<rparr>,
      visitor_team = \<lparr>full_name = ''Los Angeles Lakers'', team_abbreviation = ''LAL''\<rparr>\<rparr>"

definition exampleTrade :: "int \<Rightarrow> string \<Rightarrow> string \<Rightarrow> TradeData" where
  "exampleTrade t ev s =
     \<lparr>amount = Num 10, expectedPayout = Num 19, createdAt = Timestamp t, eventId = ev,
      selectedTeam = home, status = s, userId = ''u1''\<rparr>"

definition exampleAccount :: UserData where
  "exampleAccount =
     \<lparr>trades = Some [''t1'', ''t2'', ''gone'', ''t3'', ''t4''], walletBalance = Some (Num 100)\<rparr>"

definition exampleDb :: Firestore where
  "exampleDb =
     \<lparr>users_col = [''u1'' \<mapsto> exampleAccount],
      trades_col =
        [''t1'' \<mapsto> exampleTrade 1000 ''e1'' ''won'',
         ''t2'' \<mapsto> exampleTrade 3000 ''e2'' ''lost'',
         ''t3'' \<mapsto> exampleTrade 2000 ''e1'' ''pending'',
         ''t4'' \<mapsto> exampleTrade 500 ''e1'' ''won''],
      events_col = [''e1'' \<mapsto> exampleEvent],
      fault = (\<lambda>r. False)\<rparr>"

text \<open>The same database when the read of the second trade fails, and when the write fails.\<close>

definition tradeReadFails :: Firestore where
  "tradeReadFails = exampleDb\<lparr>fault := (\<lambda>r. r = GetDoc ''trades'' ''t2'')\<rparr>"

definition writeFails :: Firestore where
  "writeFails = exampleDb\<lparr>fault := (\<lambda>r. r = UpdateDoc ''users'' ''u1'')\<rparr>"

text \<open>The page after the account has been loaded.\<close>

definition loadedPage :: PageState where
  "loadedPage = fst (fetchUserData exampleDb (Some exampleUser) initialPage)"

section \<open>Properties\<close>

subsection \<open>The loop over the trade ids\<close>

text \<open>
  When the loop returns, it has appended the join to its accumulator; it throws exactly when
  a request it issued fails, and that request is then its last one.
\<close>

lemma fetchTrades_result:
  "fst (fetchTrades db ids acc) = Inr ts \<Longrightarrow> ts = acc @ joinTrades db ids"
proof (induction ids arbitrary: acc)
  case Nil
  then show ?case by simp
next
  case (Cons i ids)
  show ?case
  proof (cases "fault db (GetDoc ''trades'' i)")
    case True
    with Cons.prems show ?thesis by (simp add: getDoc_trades_def)
  next
    case nofault: False
    show ?thesis
    proof (cases "trades_col db i")
      case None
      with nofault Cons.prems have "fst (fetchTrades db ids acc) = Inr ts"
        by (simp add: getDoc_trades_def case_prod_beta)
      from Cons.IH [OF this] None show ?thesis by simp
    next
      case (Some td)
      show ?thesis
      proof (cases "fault db (GetDoc ''events'' (eventId td))")
        case True
        with nofault Some Cons.prems show ?thesis
          by (simp add: getDoc_trades_def getDoc_events_def)
      next
        case False
        with nofault Some Cons.prems
        have "fst (fetchTrades db ids (acc @ [mkTrade i td (events_col db (eventId td))])) = Inr ts"
          by (simp add: getDoc_trades_def getDoc_events_def case_prod_beta)
        from Cons.IH [OF this] Some show ?thesis by simp
      qed
    qed
  qed
qed

lemma fetchTrades_fault:
  "isl (fst (fetchTrades db ids acc)) \<longleftrightarrow> (\<exists>r\<in>set (snd (fetchTrades db ids acc)). fault db r)"
proof (induction ids arbitrary: acc)
  case Nil
  then show ?case by simp
next
  case (Cons i ids)
  show ?case
  proof (cases "fault db (GetDoc ''trades'' i)")
    case True
    then show ?thesis by (simp add: getDoc_trades_def)
  next
    case nofault: False
    show ?thesis
    proof (cases "trades_col db i")
      case None
      with nofault Cons.IH [of acc] show ?thesis
        by (simp add: getDoc_trades_def case_prod_beta)
    next
      case (Some td)
      show ?thesis
      proof (cases "fault db (GetDoc ''events'' (eventId td))")
        case True
        with nofault Some show ?thesis
          by (simp add: getDoc_trades_def getDoc_events_def)
      next
        case False
        with nofault Some Cons.IH [of "acc @ [mkTrade i td (events_col db (eventId td))]"]
        show ?thesis
          by (simp add: getDoc_trades_def getDoc_events_def case_prod_beta)
      qed
    qed
  qed
qed

lemma fetchTrades_fault_last:
  "isl (fst (fetchTrades db ids acc)) \<Longrightarrow>
   snd (fetchTrades db ids acc) \<noteq> [] \<and> fault db (last (snd (fetchTrades db ids acc))) \<and>
   (\<forall>r\<in>set (butlast (snd (fetchTrades db ids acc))). \<not> fault db r)"
proof (induction ids arbitrary: acc)
  case Nil
  then show ?case by simp
next
  case (Cons i ids)
  show ?case
  proof (cases "fault db (GetDoc ''trades'' i)")
    case True
    then show ?thesis by (simp add: getDoc_trades_def)
  next
    case nofault: False
    show ?thesis
    proof (cases "trades_col db i")
      case None
      with nofault Cons.prems have "isl (fst (fetchTrades db ids acc))"
        by (simp add: getDoc_trades_def case_prod_beta)
      from Cons.IH [OF this] nofault None show ?thesis
        by (simp add: getDoc_trades_def case_prod_beta)
    next
      case (Some td)
      show ?thesis
      proof (cases "fault db (GetDoc ''events'' (eventId td))")
        case True
        with nofault Some show ?thesis
          by (simp add: getDoc_trades_def getDoc_events_def)
      next
        case False
        with nofault Some Cons.prems
        have "isl (fst (fetchTrades db ids (acc @ [mkTrade i td (events_col db (eventId td))])))"
          by (simp add: getDoc_trades_def getDoc_events_def case_prod_beta)
        from Cons.IH [OF this] nofault Some False show ?thesis
          by (simp add: getDoc_trades_def getDoc_events_def case_prod_beta)
      qed
    qed
  qed
qed

lemma joinTrades_ids: "map trade_id (joinTrades db ids) = filter (\<lambda>i. trades_col db i \<noteq> None) ids"
  by (induction ids) (auto simp: mkTrade_def split: option.splits)

lemma mset_insertBy: "mset (insertBy cmp x xs) = add_mset x (mset xs)"
  by (induction xs) auto

lemma mset_sortBy: "mset (sortBy cmp xs) = mset xs"
  by (induction xs) (auto simp: sortBy_def mset_insertBy)

lemma set_insertBy: "set (insertBy cmp x xs) = insert x (set xs)"
  by (induction xs) auto

lemma newestFirst_insertBy:
  "newestFirst xs \<Longrightarrow> newestFirst (insertBy compareTrades x xs)"
  unfolding newestFirst_def
  by (induction xs) (auto simp: set_insertBy compareTrades_def)

lemma newestFirst_sortBy: "newestFirst (sortBy compareTrades xs)"
proof (induction xs)
  case Nil
  show ?case by (simp add: sortBy_def newestFirst_def)
next
  case (Cons x xs)
  have "sortBy compareTrades (x # xs) = insertBy compareTrades x (sortBy compareTrades xs)"
    by (simp add: sortBy_def)
  with Cons show ?case by (simp add: newestFirst_insertBy)
qed

subsection \<open>One load cycle\<close>

lemma try_users_fault:
  "fault db (GetDoc ''users'' (uid u)) \<Longrightarrow>
   fetchUserData_try db u st = (Inl (FirestoreError ''unavailable''), st, [GetDoc ''users'' (uid u)])"
  by (simp add: fetchUserData_try_def getDoc_users_def)

lemma try_no_account:
  "\<not> fault db (GetDoc ''users'' (uid u)) \<Longrightarrow> users_col db (uid u) = None \<Longrightarrow>
   fetchUserData_try db u st = (Inr (), st\<lparr>st_loading := False\<rparr>, [GetDoc ''users'' (uid u)])"
  by (simp add: fetchUserData_try_def getDoc_users_def)

lemma try_account:
  "\<not> fault db (GetDoc ''users'' (uid u)) \<Longrightarrow> users_col db (uid u) = Some ud \<Longrightarrow>
   fetchTrades db (userTradeIds ud) [] = (r, reqs) \<Longrightarrow>
   fetchUserData_try db u st =
     (case r of
        Inl e \<Rightarrow> (Inl e, st\<lparr>st_walletBalance := or_zero (walletBalance ud)\<rparr>,
                  GetDoc ''users'' (uid u) # reqs)
      | Inr ts \<Rightarrow> (Inr (), st\<lparr>st_walletBalance := or_zero (walletBalance ud),
                              st_trades := sortBy compareTrades ts\<rparr>,
                  GetDoc ''users'' (uid u) # reqs))"
  by (simp add: fetchUserData_try_def getDoc_users_def userTradeIds_def Let_def split: sum.splits)

lemma fetchUserData_signed_in:
  "fetchUserData db (Some u) st =
     ((fst (snd (fetchUserData_try db u st)))\<lparr>st_loading := False\<rparr>,
      snd (snd (fetchUserData_try db u st)))"
  by (simp add: fetchUserData_def case_prod_beta)

lemma fetchUserData_success:
  assumes acct: "users_col db (uid u) = Some ud"
    and ok: "\<forall>r\<in>set (snd (fetchUserData db (Some u) st)). \<not> fault db r"
  shows "fst (fetchUserData db (Some u) st) =
           st\<lparr>st_walletBalance := or_zero (walletBalance ud),
              st_trades := sortBy compareTrades (joinTrades db (userTradeIds ud)),
              st_loading := False\<rparr>"
proof -
  obtain r reqs where ft: "fetchTrades db (userTradeIds ud) [] = (r, reqs)"
    by (cases "fetchTrades db (userTradeIds ud) []")
  have nf: "\<not> fault db (GetDoc ''users'' (uid u))"
  proof
    assume f: "fault db (GetDoc ''users'' (uid u))"
    from ok show False
      by (simp add: fetchUserData_signed_in try_users_fault [OF f] f)
  qed
  have tr: "fetchUserData_try db u st =
     (case r of
        Inl e \<Rightarrow> (Inl e, st\<lparr>st_walletBalance := or_zero (walletBalance ud)\<rparr>,
                  GetDoc ''users'' (uid u) # reqs)
      | Inr ts \<Rightarrow> (Inr (), st\<lparr>st_walletBalance := or_zero (walletBalance ud),
                              st_trades := sortBy compareTrades ts\<rparr>,
                  GetDoc ''users'' (uid u) # reqs))"
    by (rule try_account [OF nf acct ft])
  have reqs_ok: "\<forall>r\<in>set reqs. \<not> fault db r"
    using ok by (cases r) (simp_all add: fetchUserData_signed_in tr)
  have "\<not> isl r"
    using fetchTrades_fault [of db "userTradeIds ud" "[]"] reqs_ok by (simp add: ft)
  then obtain ts where r: "r = Inr ts" by (cases r) auto
  have "ts = joinTrades db (userTradeIds ud)"
    using fetchTrades_result [of db "userTradeIds ud" "[]" ts] by (simp add: ft r)
  then show ?thesis
    by (simp add: fetchUserData_signed_in tr r)
qed

subsection \<open>Facts about the example data\<close>

lemma example_fields [simp]:
  "uid exampleUser = ''u1''"
  "users_col exampleDb ''u1'' = Some exampleAccount"
  "users_col tradeReadFails ''u1'' = Some exampleAccount"
  "walletBalance exampleAccount = Some (Num 100)"
  by (simp_all add: exampleUser_def exampleDb_def exampleAccount_def tradeReadFails_def)

lemma tradeReadFails_cycle:
  "fetchUserData tradeReadFails (Some exampleUser) initialPage =
     (initialPage\<lparr>st_walletBalance := Num 100, st_loading := False\<rparr>,
      [GetDoc ''users'' ''u1'', GetDoc ''trades'' ''t1'', GetDoc ''events'' ''e1'',
       GetDoc ''trades'' ''t2''])"
  by (simp add: fetchUserData_def fetchUserData_try_def getDoc_users_def getDoc_trades_def
      getDoc_events_def tradeReadFails_def exampleDb_def exampleUser_def exampleAccount_def
      exampleTrade_def)

subsection \<open>A load cycle in which a read fails\<close>

text \<open>
  Claim C1, as the code has it.  When a request of the cycle fails, that request is the last
  one the cycle issues (the cycle is aborted), \<^verbatim>\<open>loading\<close> is cleared and the trade
  list is the one from before the cycle.  The balance is the one from before the cycle only
  when the read of the user document is the one that fails: when a trade or an event read
  fails, the user document has been read and the balance has already been set from it
  (\<^verbatim>\<open>setWalletBalance\<close> runs before the loop), to the account's
  \<^verbatim>\<open>walletBalance\<close> or to 0 when that is absent or falsy.
\<close>

theorem fetchUserData_fetch_fails:
  assumes failed: "\<exists>r\<in>set (snd (fetchUserData db (Some u) st)). fault db r"
  shows "fault db (last (snd (fetchUserData db (Some u) st))) \<and>
         (\<forall>r\<in>set (butlast (snd (fetchUserData db (Some u) st))). \<not> fault db r) \<and>
         st_loading (fst (fetchUserData db (Some u) st)) = False \<and>
         st_trades (fst (fetchUserData db (Some u) st)) = st_trades st \<and>
         (fault db (GetDoc ''users'' (uid u)) \<longrightarrow>
            st_walletBalance (fst (fetchUserData db (Some u) st)) = st_walletBalance st) \<and>
         (\<not> fault db (GetDoc ''users'' (uid u)) \<longrightarrow>
            (\<exists>ud. users_col db (uid u) = Some ud \<and>
                  st_walletBalance (fst (fetchUserData db (Some u) st)) = or_zero (walletBalance ud)))"
proof (cases "fault db (GetDoc ''users'' (uid u))")
  case True
  then show ?thesis
    by (simp add: fetchUserData_signed_in try_users_fault)
next
  case nf: False
  show ?thesis
  proof (cases "users_col db (uid u)")
    case None
    with nf failed show ?thesis
      by (simp add: fetchUserData_signed_in try_no_account)
  next
    case (Some ud)
    obtain r reqs where ft: "fetchTrades db (userTradeIds ud) [] = (r, reqs)"
      by (cases "fetchTrades db (userTradeIds ud) []")
    note tr = try_account [OF nf Some ft]
    have "\<exists>q\<in>set reqs. fault db q"
      using failed nf by (cases r) (auto simp add: fetchUserData_signed_in tr)
    then have "isl r"
      using fetchTrades_fault [of db "userTradeIds ud" "[]"] by (simp add: ft)
    then obtain e where r: "r = Inl e" by (cases r) auto
    from \<open>isl r\<close> have "reqs \<noteq> [] \<and> fault db (last reqs) \<and> (\<forall>q\<in>set (butlast reqs). \<not> fault db q)"
      using fetchTrades_fault_last [of db "userTradeIds ud" "[]"] by (simp add: ft)
    with nf Some show ?thesis
      by (simp add: fetchUserData_signed_in tr r)
  qed
qed

text \<open>
  On the example account the read of the second trade fails: the page keeps its empty
  trade list, and its balance has changed from 0 to the 100 of the account.
\<close>

theorem fetchUserData_fetch_fails_witness:
  "fault tradeReadFails (GetDoc ''trades'' ''t2'') \<and>
   GetDoc ''trades'' ''t2'' \<in> set (snd (fetchUserData tradeReadFails (Some exampleUser) initialPage)) \<and>
   st_loading (fst (fetchUserData tradeReadFails (Some exampleUser) initialPage)) = False \<and>
   st_trades (fst (fetchUserData tradeReadFails (Some exampleUser) initialPage)) = [] \<and>
   st_walletBalance (fst (fetchUserData tradeReadFails (Some exampleUser) initialPage)) = Num 100"
proof -
  have f: "fault tradeReadFails (GetDoc ''trades'' ''t2'')"
    by (simp add: tradeReadFails_def)
  have m: "GetDoc ''trades'' ''t2'' \<in> set (snd (fetchUserData tradeReadFails (Some exampleUser) initialPage))"
    by (simp add: tradeReadFails_cycle)
  from f m have "\<exists>r\<in>set (snd (fetchUserData tradeReadFails (Some exampleUser) initialPage)). fault tradeReadFails r"
    by blast
  from fetchUserData_fetch_fails [OF this] f m show ?thesis
    by (simp add: tradeReadFails_def initialPage_def)
qed

text \<open>
  The same cycle against the claim as it was stated: a request of the cycle fails, and the
  balance after the cycle is not the balance from before it.
\<close>

theorem balance_not_kept_counterexample:
  "fault tradeReadFails (GetDoc ''trades'' ''t2'') \<and>
   GetDoc ''trades'' ''t2'' \<in> set (snd (fetchUserData tradeReadFails (Some exampleUser) initialPage)) \<and>
   st_walletBalance initialPage = Num 0 \<and>
   st_walletBalance (fst (fetchUserData tradeReadFails (Some exampleUser) initialPage)) = Num 100"
  by (simp add: tradeReadFails_cycle) (simp add: tradeReadFails_def initialPage_def)

subsection \<open>Sorting, counting and the join\<close>

lemma set_sortBy: "set (sortBy cmp xs) = set xs"
  using mset_sortBy [of cmp xs] by (metis set_mset_mset)

lemma length_sortBy: "length (sortBy cmp xs) = length xs"
  using mset_sortBy [of cmp xs] by (metis size_mset)

lemma tradeRecord_mset: "mset xs = mset ys \<Longrightarrow> tradeRecord xs = tradeRecord ys"
proof -
  assume eq: "mset xs = mset ys"
  have "\<And>P. length (filter P xs) = length (filter P ys)"
  proof -
    fix P :: "Trade \<Rightarrow> bool"
    have "mset (filter P xs) = mset (filter P ys)"
      by (simp add: eq)
    then show "length (filter P xs) = length (filter P ys)"
      by (metis size_mset)
  qed
  then show ?thesis by (simp add: tradeRecord_def)
qed

lemma tradeRecord_sortBy: "tradeRecord (sortBy cmp xs) = tradeRecord xs"
  by (rule tradeRecord_mset) (rule mset_sortBy)

lemma joinTrades_member:
  "i \<in> set ids \<Longrightarrow> trades_col db i = Some td \<Longrightarrow>
   mkTrade i td (events_col db (eventId td)) \<in> set (joinTrades db ids)"
  by (induction ids) (auto split: option.splits)

lemma tradeRecord_joinTrades:
  "tradeRecord (joinTrades db ids) =
     (length (filter (\<lambda>i. map_option status (trades_col db i) = Some ''won'') ids),
      length (filter (\<lambda>i. map_option status (trades_col db i) = Some ''lost'') ids))"
  by (induction ids) (auto simp: tradeRecord_def mkTrade_def split: option.splits)

lemma no_faults_example [simp]: "fault exampleDb r = False"
  by (simp add: exampleDb_def)

lemma loadedPage_eq:
  "loadedPage =
     initialPage\<lparr>st_walletBalance := Num 100,
       st_trades :=
         [mkTrade ''t2'' (exampleTrade 3000 ''e2'' ''lost'') None,
          mkTrade ''t3'' (exampleTrade 2000 ''e1'' ''pending'') (Some exampleEvent),
          mkTrade ''t1'' (exampleTrade 1000 ''e1'' ''won'') (Some exampleEvent),
          mkTrade ''t4'' (exampleTrade 500 ''e1'' ''won'') (Some exampleEvent)],
       st_loading := False\<rparr>"
proof -
  have ok: "\<forall>r\<in>set (snd (fetchUserData exampleDb (Some exampleUser) initialPage)). \<not> fault exampleDb r"
    by simp
  have acct: "users_col exampleDb (uid exampleUser) = Some exampleAccount"
    by simp
  have j: "joinTrades exampleDb (userTradeIds exampleAccount) =
         [mkTrade ''t1'' (exampleTrade 1000 ''e1'' ''won'') (Some exampleEvent),
          mkTrade ''t2'' (exampleTrade 3000 ''e2'' ''lost'') None,
          mkTrade ''t3'' (exampleTrade 2000 ''e1'' ''pending'') (Some exampleEvent),
          mkTrade ''t4'' (exampleTrade 500 ''e1'' ''won'') (Some exampleEvent)]"
    by (simp add: userTradeIds_def exampleAccount_def exampleDb_def exampleTrade_def)
  have c: "\<And>i t e s. createdAt (mkTrade i (exampleTrade t e s) ev) = Timestamp t"
    by (simp add: mkTrade_def exampleTrade_def)
  show ?thesis
    unfolding loadedPage_def fetchUserData_success [OF acct ok] j
    by (simp add: sortBy_def compareTrades_def mkTrade_def exampleTrade_def)
qed

subsection \<open>A load cycle without a user\<close>

text \<open>
  Claim C2, as the code has it.  A load cycle in which no user is signed in clears
  \<^verbatim>\<open>loading\<close> and issues no request; it leaves the trade list and the balance as
  they were.  On a freshly mounted page these are the empty list and 0; after a sign-out
  they are the data of the account that was loaded, which the page no longer shows, since
  it renders the sign-in prompt.
\<close>

theorem fetchUserData_no_user:
  "fetchUserData db None st = (st\<lparr>st_loading := False\<rparr>, []) \<and>
   st_trades (fst (fetchUserData db None initialPage)) = [] \<and>
   st_walletBalance (fst (fetchUserData db None initialPage)) = Num 0 \<and>
   render None (fst (fetchUserData db None st)) = SignInPrompt"
  by (simp add: fetchUserData_def initialPage_def render_def)

text \<open>
  The example account is loaded and the user then signs out: the state still holds the four
  trades and the balance 100.
\<close>

theorem sign_out_keeps_data_counterexample:
  "map trade_id (st_trades (fst (fetchUserData exampleDb None loadedPage))) = [''t2'', ''t3'', ''t1'', ''t4''] \<and>
   st_walletBalance (fst (fetchUserData exampleDb None loadedPage)) = Num 100"
  by (simp add: fetchUserData_def loadedPage_eq mkTrade_def)

subsection \<open>The published trades\<close>

text \<open>
  Claim C6.  After a load cycle in which the user document exists and no request fails, the
  ids of the published trades are, counted with repetitions, the ids of the account's
  \<^verbatim>\<open>trades\<close> list that have a trade document: ids without one are dropped, the
  number of published trades is the number of ids that resolve, and the page renders one
  entry for each of them.
\<close>

theorem published_trades_are_the_resolvable_ids:
  assumes acct: "users_col db (uid u) = Some ud"
    and ok: "\<forall>r\<in>set (snd (fetchUserData db (Some u) st)). \<not> fault db r"
  shows "mset (map trade_id (st_trades (fst (fetchUserData db (Some u) st)))) =
           mset (filter (\<lambda>i. trades_col db i \<noteq> None) (userTradeIds ud)) \<and>
         trade_id ` set (st_trades (fst (fetchUserData db (Some u) st))) =
           {i \<in> set (userTradeIds ud). trades_col db i \<noteq> None} \<and>
         length (st_trades (fst (fetchUserData db (Some u) st))) =
           length (filter (\<lambda>i. trades_col db i \<noteq> None) (userTradeIds ud)) \<and>
         mset (map entry_id (view_entries (render (Some u) (fst (fetchUserData db (Some u) st))))) =
           mset (filter (\<lambda>i. trades_col db i \<noteq> None) (userTradeIds ud))"
proof -
  let ?ids = "userTradeIds ud"
  let ?ts = "st_trades (fst (fetchUserData db (Some u) st))"
  have ts: "?ts = sortBy compareTrades (joinTrades db ?ids)"
    by (simp add: fetchUserData_success [OF acct ok])
  have m: "mset (map trade_id ?ts) = mset (filter (\<lambda>i. trades_col db i \<noteq> None) ?ids)"
  proof -
    have "mset (map trade_id ?ts) = mset (map trade_id (joinTrades db ?ids))"
      by (simp add: ts mset_sortBy)
    then show ?thesis by (simp only: joinTrades_ids)
  qed
  have s: "trade_id ` set ?ts = {i \<in> set ?ids. trades_col db i \<noteq> None}"
  proof -
    have "trade_id ` set ?ts = set (map trade_id (joinTrades db ?ids))"
      by (simp add: ts set_sortBy)
    then show ?thesis by (simp add: joinTrades_ids)
  qed
  have l: "length ?ts = length (filter (\<lambda>i. trades_col db i \<noteq> None) ?ids)"
  proof -
    have "length ?ts = length (map trade_id (joinTrades db ?ids))"
      by (simp add: ts length_sortBy)
    then show ?thesis by (simp add: joinTrades_ids)
  qed
  have v: "view_entries (render (Some u) (fst (fetchUserData db (Some u) st))) = map renderTrade ?ts"
    by (simp add: render_def fetchUserData_success [OF acct ok])
  have e: "map entry_id (map renderTrade ?ts) = map trade_id ?ts"
    by (simp add: renderTrade_def)
  from m s l show ?thesis
    unfolding v e by blast
qed

text \<open>
  The example account lists five ids of which \<^verbatim>\<open>gone\<close> has no document: four
  trades are published.
\<close>

theorem published_trades_are_the_resolvable_ids_witness:
  "users_col exampleDb (uid exampleUser) = Some exampleAccount \<and>
   mset (map trade_id (st_trades (fst (fetchUserData exampleDb (Some exampleUser) initialPage)))) =
     mset [''t1'', ''t2'', ''t3'', ''t4''] \<and>
   length (userTradeIds exampleAccount) = 5 \<and>
   length (st_trades (fst (fetchUserData exampleDb (Some exampleUser) initialPage))) = 4"
proof -
  have ok: "\<forall>r\<in>set (snd (fetchUserData exampleDb (Some exampleUser) initialPage)). \<not> fault exampleDb r"
    by simp
  have acct: "users_col exampleDb (uid exampleUser) = Some exampleAccount"
    by simp
  have f: "filter (\<lambda>i. trades_col exampleDb i \<noteq> None) (userTradeIds exampleAccount) = [''t1'', ''t2'', ''t3'', ''t4'']"
    by (simp add: userTradeIds_def exampleAccount_def exampleDb_def)
  note inst = published_trades_are_the_resolvable_ids [OF acct ok]
  have a: "mset (map trade_id (st_trades (fst (fetchUserData exampleDb (Some exampleUser) initialPage)))) =
     mset [''t1'', ''t2'', ''t3'', ''t4'']"
    using inst by (simp only: f)
  have l: "length (st_trades (fst (fetchUserData exampleDb (Some exampleUser) initialPage))) = 4"
    using inst by (simp only: f) simp
  have n: "length (userTradeIds exampleAccount) = 5"
    by (simp add: userTradeIds_def exampleAccount_def)
  from acct a n l show ?thesis by blast
qed

subsection \<open>Counting by status\<close>

lemma length_filter_status:
  "length (filter (\<lambda>t. status t = s) ts) = count_list (map status ts) s"
  by (induction ts) auto

lemma status_partition:
  "length (filter (\<lambda>t. status t = ''won'') ts) + length (filter (\<lambda>t. status t = ''lost'') ts) +
   length (filter (\<lambda>t. status t \<noteq> ''won'' \<and> status t \<noteq> ''lost'') ts) = length (ts :: Trade list)"
  by (induction ts) auto

lemma example_trades [simp]:
  "userTradeIds exampleAccount = [''t1'', ''t2'', ''gone'', ''t3'', ''t4'']"
  "trades_col exampleDb ''t1'' = Some (exampleTrade 1000 ''e1'' ''won'')"
  "trades_col exampleDb ''t2'' = Some (exampleTrade 3000 ''e2'' ''lost'')"
  "trades_col exampleDb ''gone'' = None"
  "trades_col exampleDb ''t3'' = Some (exampleTrade 2000 ''e1'' ''pending'')"
  "trades_col exampleDb ''t4'' = Some (exampleTrade 500 ''e1'' ''won'')"
  "events_col exampleDb ''e2'' = None"
  "eventId (exampleTrade t e s) = e"
  "status (exampleTrade t e s) = s"
  by (simp_all add: userTradeIds_def exampleAccount_def exampleDb_def exampleTrade_def)

subsection \<open>A trade whose event is missing\<close>

text \<open>
  Claim C7.  After a load cycle in which the user document exists and no request fails,
  a trade id of the account whose trade document exists but whose event document does not
  still has an entry in the rendered list: the entry carries the status of the trade
  document, the team label \<^verbatim>\<open>Unknown Team\<close>, no logo and no fixture line.  The
  win/loss counts are those of the statuses of the account's trade documents, whether or
  not their events exist.
\<close>

theorem trade_without_event_is_listed:
  assumes acct: "users_col db (uid u) = Some ud"
    and ok: "\<forall>r\<in>set (snd (fetchUserData db (Some u) st)). \<not> fault db r"
    and listed: "i \<in> set (userTradeIds ud)"
    and trade: "trades_col db i = Some td"
    and no_event: "events_col db (eventId td) = None"
  shows "(\<exists>e\<in>set (view_entries (render (Some u) (fst (fetchUserData db (Some u) st)))).
            entry_id e = i \<and> entry_status e = status td \<and>
            entry_teamLabel e = ''Unknown Team'' \<and> entry_logo e = None \<and> entry_fixture e = None) \<and>
         tradeRecord (st_trades (fst (fetchUserData db (Some u) st))) =
           (length (filter (\<lambda>i. map_option status (trades_col db i) = Some ''won'') (userTradeIds ud)),
            length (filter (\<lambda>i. map_option status (trades_col db i) = Some ''lost'') (userTradeIds ud)))"
proof -
  let ?st' = "fst (fetchUserData db (Some u) st)"
  let ?t = "mkTrade i td None"
  have ts: "st_trades ?st' = sortBy compareTrades (joinTrades db (userTradeIds ud))"
    by (simp add: fetchUserData_success [OF acct ok])
  have v: "view_entries (render (Some u) ?st') = map renderTrade (st_trades ?st')"
    by (simp add: render_def fetchUserData_success [OF acct ok])
  have "?t \<in> set (joinTrades db (userTradeIds ud))"
    using joinTrades_member [OF listed trade] by (simp add: no_event)
  then have "?t \<in> set (st_trades ?st')"
    by (simp add: ts set_sortBy)
  then have "renderTrade ?t \<in> set (view_entries (render (Some u) ?st'))"
    by (simp add: v)
  moreover have "entry_id (renderTrade ?t) = i \<and> entry_status (renderTrade ?t) = status td \<and>
      entry_teamLabel (renderTrade ?t) = ''Unknown Team'' \<and> entry_logo (renderTrade ?t) = None \<and>
      entry_fixture (renderTrade ?t) = None"
    by (simp add: renderTrade_def mkTrade_def)
  ultimately have entry: "\<exists>e\<in>set (view_entries (render (Some u) ?st')).
            entry_id e = i \<and> entry_status e = status td \<and>
            entry_teamLabel e = ''Unknown Team'' \<and> entry_logo e = None \<and> entry_fixture e = None"
    by blast
  have "tradeRecord (st_trades ?st') = tradeRecord (joinTrades db (userTradeIds ud))"
    by (simp add: ts tradeRecord_sortBy)
  with entry show ?thesis
    by (simp only: tradeRecord_joinTrades) 
qed

text \<open>
  In the example the event \<^verbatim>\<open>e2\<close> of the lost trade \<^verbatim>\<open>t2\<close> is missing: the
  trade is listed as \<^verbatim>\<open>Unknown Team\<close> and the record is two wins and one loss.
\<close>

theorem trade_without_event_is_listed_witness:
  "trades_col exampleDb ''t2'' = Some (exampleTrade 3000 ''e2'' ''lost'') \<and>
   events_col exampleDb ''e2'' = None \<and>
   renderTrade (mkTrade ''t2'' (exampleTrade 3000 ''e2'' ''lost'') None)
     \<in> set (view_entries (render (Some exampleUser) loadedPage)) \<and>
   entry_teamLabel (renderTrade (mkTrade ''t2'' (exampleTrade 3000 ''e2'' ''lost'') None)) = ''Unknown Team'' \<and>
   tradeRecord (st_trades (fst (fetchUserData exampleDb (Some exampleUser) initialPage))) = (2, 1)"
proof -
  have ok: "\<forall>r\<in>set (snd (fetchUserData exampleDb (Some exampleUser) initialPage)). \<not> fault exampleDb r"
    by simp
  have acct: "users_col exampleDb (uid exampleUser) = Some exampleAccount"
    by simp
  have listed: "''t2'' \<in> set (userTradeIds exampleAccount)"
    by simp
  have trade: "trades_col exampleDb ''t2'' = Some (exampleTrade 3000 ''e2'' ''lost'')"
    by simp
  have no_event: "events_col exampleDb (eventId (exampleTrade 3000 ''e2'' ''lost'')) = None"
    by simp
  note inst = trade_without_event_is_listed [OF acct ok listed trade no_event]
  have r: "tradeRecord (st_trades (fst (fetchUserData exampleDb (Some exampleUser) initialPage))) = (2, 1)"
    using inst by simp
  have m: "renderTrade (mkTrade ''t2'' (exampleTrade 3000 ''e2'' ''lost'') None)
     \<in> set (view_entries (render (Some exampleUser) loadedPage))"
    by (simp add: loadedPage_eq render_def initialPage_def)
  have l: "entry_teamLabel (renderTrade (mkTrade ''t2'' (exampleTrade 3000 ''e2'' ''lost'') None)) = ''Unknown Team''"
    by (simp add: renderTrade_def mkTrade_def)
  from trade r m l show ?thesis by simp
qed

subsection \<open>The order of the published trades\<close>

text \<open>
  Claim C8.  After a load cycle in which the user document exists and no request fails,
  the published list holds the joined trades ordered newest first: a trade never has a later
  creation time than a trade before it in the list.  Creation times are compared as the
  millisecond time values of \<^verbatim>\<open>createdAt.toDate()\<close>.
\<close>

theorem published_trades_newest_first:
  assumes acct: "users_col db (uid u) = Some ud"
    and ok: "\<forall>r\<in>set (snd (fetchUserData db (Some u) st)). \<not> fault db r"
  shows "(\<forall>i j. i < j \<longrightarrow> j < length (st_trades (fst (fetchUserData db (Some u) st))) \<longrightarrow>
            getTime (createdAt (st_trades (fst (fetchUserData db (Some u) st)) ! j))
              \<le> getTime (createdAt (st_trades (fst (fetchUserData db (Some u) st)) ! i))) \<and>
         mset (st_trades (fst (fetchUserData db (Some u) st))) = mset (joinTrades db (userTradeIds ud))"
proof -
  have ts: "st_trades (fst (fetchUserData db (Some u) st)) =
      sortBy compareTrades (joinTrades db (userTradeIds ud))"
    by (simp add: fetchUserData_success [OF acct ok])
  have "newestFirst (sortBy compareTrades (joinTrades db (userTradeIds ud)))"
    by (rule newestFirst_sortBy)
  then show ?thesis
    unfolding ts newestFirst_def sorted_wrt_iff_nth_less
    by (simp add: mset_sortBy)
qed

text \<open>
  The example trades, fetched in the order of creation times 1000, 3000, 2000, 500, are
  published in the order 3000, 2000, 1000, 500.
\<close>

theorem published_trades_newest_first_witness:
  "map (\<lambda>t. getTime (createdAt t)) (joinTrades exampleDb (userTradeIds exampleAccount)) = [1000, 3000, 2000, 500] \<and>
   map (\<lambda>t. getTime (createdAt t)) (st_trades (fst (fetchUserData exampleDb (Some exampleUser) initialPage))) =
     [3000, 2000, 1000, 500] \<and>
   getTime (createdAt (st_trades (fst (fetchUserData exampleDb (Some exampleUser) initialPage)) ! 1))
     \<le> getTime (createdAt (st_trades (fst (fetchUserData exampleDb (Some exampleUser) initialPage)) ! 0))"
proof -
  have ok: "\<forall>r\<in>set (snd (fetchUserData exampleDb (Some exampleUser) initialPage)). \<not> fault exampleDb r"
    by simp
  have acct: "users_col exampleDb (uid exampleUser) = Some exampleAccount"
    by simp
  note inst = published_trades_newest_first [OF acct ok]
  have len: "length (st_trades (fst (fetchUserData exampleDb (Some exampleUser) initialPage))) = 4"
    using loadedPage_eq by (simp add: loadedPage_def)
  have a: "getTime (createdAt (st_trades (fst (fetchUserData exampleDb (Some exampleUser) initialPage)) ! 1))
     \<le> getTime (createdAt (st_trades (fst (fetchUserData exampleDb (Some exampleUser) initialPage)) ! 0))"
    using inst len by simp
  have b: "map (\<lambda>t. getTime (createdAt t)) (st_trades (fst (fetchUserData exampleDb (Some exampleUser) initialPage))) =
     [3000, 2000, 1000, 500]"
    using loadedPage_eq by (simp add: loadedPage_def mkTrade_def exampleTrade_def)
  have c: "map (\<lambda>t. getTime (createdAt t)) (joinTrades exampleDb (userTradeIds exampleAccount)) = [1000, 3000, 2000, 500]"
    by (simp add: mkTrade_def exampleTrade_def)
  from a b c show ?thesis by blast
qed

text \<open>Trades created at \<open>T - 3\<close>, \<open>T - 1\<close> and \<open>T - 2\<close> come out as the second, the third, the first.\<close>

lemma sort_example:
  "map trade_id
     (sortBy compareTrades
        [mkTrade ''a'' (exampleTrade (T - 3) ''e1'' ''won'') None,
         mkTrade ''b'' (exampleTrade (T - 1) ''e1'' ''won'') None,
         mkTrade ''c'' (exampleTrade (T - 2) ''e1'' ''won'') None]) = [''b'', ''c'', ''a'']"
  by (simp add: sortBy_def compareTrades_def mkTrade_def exampleTrade_def)

subsection \<open>The win/loss record\<close>

text \<open>
  Claim C9.  The record shown for a trade list is the number of its entries with status
  \<^verbatim>\<open>won\<close> and the number with status \<^verbatim>\<open>lost\<close>; entries with any other status,
  \<^verbatim>\<open>pending\<close> included, are in neither count, and the loaded page shows the two
  numbers as \<^verbatim>\<open>nW - mL\<close>.
\<close>

theorem trade_record_counts:
  "tradeRecord ts = (count_list (map status ts) ''won'', count_list (map status ts) ''lost'') \<and>
   fst (tradeRecord ts) + snd (tradeRecord ts) +
     length (filter (\<lambda>t. status t \<noteq> ''won'' \<and> status t \<noteq> ''lost'') ts) = length ts \<and>
   view_record (render (Some u) (st\<lparr>st_trades := ts, st_loading := False\<rparr>)) =
     [showNat (count_list (map status ts) ''won'') @ ''W'', ''-'',
      showNat (count_list (map status ts) ''lost'') @ ''L'']"
proof -
  have c: "tradeRecord ts = (count_list (map status ts) ''won'', count_list (map status ts) ''lost'')"
    by (simp add: tradeRecord_def length_filter_status)
  have p: "fst (tradeRecord ts) + snd (tradeRecord ts) +
     length (filter (\<lambda>t. status t \<noteq> ''won'' \<and> status t \<noteq> ''lost'') ts) = length ts"
    using status_partition [of ts] by (simp add: tradeRecord_def)
  have v: "view_record (render (Some u) (st\<lparr>st_trades := ts, st_loading := False\<rparr>)) =
     [showNat (count_list (map status ts) ''won'') @ ''W'', ''-'',
      showNat (count_list (map status ts) ''lost'') @ ''L'']"
    by (simp add: render_def tradeRecordText_def c)
  from c p v show ?thesis by blast
qed

text \<open>The statuses won, won, lost, pending are shown as \<^verbatim>\<open>2W - 1L\<close>.\<close>

theorem trade_record_counts_witness:
  "view_record (render (Some exampleUser)
     (initialPage\<lparr>st_trades :=
        map (\<lambda>s. mkTrade ''t'' (exampleTrade 0 ''e1'' s) None) [''won'', ''won'', ''lost'', ''pending''],
        st_loading := False\<rparr>)) = [''2W'', ''-'', ''1L'']"
  using trade_record_counts [of "map (\<lambda>s. mkTrade ''t'' (exampleTrade 0 ''e1'' s) None) [''won'', ''won'', ''lost'', ''pending'']" exampleUser initialPage]
  by (simp add: mkTrade_def exampleTrade_def showNat.simps)

subsection \<open>Parsing and writing\<close>

lemmas parseFloat_defs =
  parseFloat_def strDecimalLiteral_def unsignedLiteral_def digitVal_def decimalValue_def
  scale10_def exponentPart_def isWhiteSpace_def

lemma parseFloat_examples:
  "parseFloat ''25.50'' = Num 25.5"
  "parseFloat ''-5'' = Num (- 5)"
  "parseFloat ''abc'' = NaN"
  "parseFloat ''50'' = Num 50"
  by (simp_all add: parseFloat_defs)

lemma updateDoc_walletBalance_ok:
  "users_col db i = Some ud \<Longrightarrow> \<not> fault db (UpdateDoc ''users'' i) \<Longrightarrow>
   updateDoc_walletBalance db i b = Inr (db\<lparr>users_col := (users_col db)(i \<mapsto> ud\<lparr>walletBalance := Some b\<rparr>)\<rparr>)"
  by (simp add: updateDoc_walletBalance_def)

lemma updateDoc_walletBalance_persists:
  "updateDoc_walletBalance db i b = Inr db' \<Longrightarrow>
   \<exists>ud. users_col db' i = Some ud \<and> walletBalance ud = Some b"
  by (auto simp: updateDoc_walletBalance_def split: if_splits option.splits)

lemma loadedPage_balance [simp]: "st_walletBalance loadedPage = Num 100"
  by (simp add: loadedPage_eq initialPage_def)

lemma writeFails_fields [simp]:
  "fault writeFails (UpdateDoc ''users'' ''u1'')"
  "users_col writeFails ''u1'' = Some exampleAccount"
  by (simp_all add: writeFails_def exampleDb_def)

subsection \<open>The balance update\<close>

text \<open>
  Claim C3.  \<^verbatim>\<open>handleAddFunds\<close> succeeds exactly when a user is signed in and the
  write of the new balance succeeds.  When it succeeds, the balance of the page and the
  \<^verbatim>\<open>walletBalance\<close> of the stored user document are both the sum of the balance the
  page held and the amount.  When it fails, it throws, and the page (its balance included)
  and the database are as before; without a user the exception is
  \<^verbatim>\<open>User not found\<close>.
\<close>

theorem handleAddFunds_outcome:
  assumes run: "handleAddFunds user amnt (st, db) = (r, st', db')"
  shows "(r = Inr () \<longleftrightarrow>
            (\<exists>u. user = Some u \<and>
                 \<not> isl (updateDoc_walletBalance db (uid u) (js_add (st_walletBalance st) amnt)))) \<and>
         (r = Inr () \<longrightarrow>
            st_walletBalance st' = js_add (st_walletBalance st) amnt \<and>
            (\<exists>u ud. user = Some u \<and> users_col db' (uid u) = Some ud \<and>
                    walletBalance ud = Some (js_add (st_walletBalance st) amnt))) \<and>
         (r \<noteq> Inr () \<longrightarrow> isl r \<and> st' = st \<and> db' = db) \<and>
         (user = None \<longrightarrow> r = Inl (Error ''User not found''))"
proof (cases user)
  case None
  with run show ?thesis by (auto simp: handleAddFunds_def)
next
  case (Some u)
  let ?new = "js_add (st_walletBalance st) amnt"
  show ?thesis
  proof (cases "updateDoc_walletBalance db (uid u) ?new")
    case (Inl e)
    with run Some show ?thesis by (auto simp: handleAddFunds_def)
  next
    case (Inr d)
    with run Some have res: "r = Inr ()" "st' = st\<lparr>st_walletBalance := ?new\<rparr>" "db' = d"
      by (auto simp: handleAddFunds_def)
    from updateDoc_walletBalance_persists [OF Inr]
    obtain ud where "users_col d (uid u) = Some ud" "walletBalance ud = Some ?new" by blast
    with res Some Inr show ?thesis by simp
  qed
qed

text \<open>
  With balance 100 and amount 50: the page and the stored document get 150; when the write
  fails, or nobody is signed in, the call throws and nothing changes.
\<close>

theorem handleAddFunds_outcome_witness:
  "fst (handleAddFunds (Some exampleUser) (Num 50) (loadedPage, exampleDb)) = Inr () \<and>
   st_walletBalance (fst (snd (handleAddFunds (Some exampleUser) (Num 50) (loadedPage, exampleDb)))) = Num 150 \<and>
   map_option walletBalance
     (users_col (snd (snd (handleAddFunds (Some exampleUser) (Num 50) (loadedPage, exampleDb)))) ''u1'') =
     Some (Some (Num 150)) \<and>
   handleAddFunds (Some exampleUser) (Num 50) (loadedPage, writeFails) =
     (Inl (FirestoreError ''unavailable''), loadedPage, writeFails) \<and>
   handleAddFunds None (Num 50) (loadedPage, exampleDb) =
     (Inl (Error ''User not found''), loadedPage, exampleDb)"
proof -
  let ?ok = "handleAddFunds (Some exampleUser) (Num 50) (loadedPage, exampleDb)"
  have w: "updateDoc_walletBalance exampleDb ''u1'' (Num 150) =
      Inr (exampleDb\<lparr>users_col := (users_col exampleDb)(''u1'' \<mapsto> exampleAccount\<lparr>walletBalance := Some (Num 150)\<rparr>)\<rparr>)"
    by (simp add: updateDoc_walletBalance_ok)
  have "?ok = (fst ?ok, fst (snd ?ok), snd (snd ?ok))" by simp
  from handleAddFunds_outcome [OF this]
  have a: "fst ?ok = Inr ()"
    and b: "fst ?ok = Inr () \<longrightarrow> st_walletBalance (fst (snd ?ok)) = Num 150 \<and>
            (\<exists>ud. users_col (snd (snd ?ok)) ''u1'' = Some ud \<and> walletBalance ud = Some (Num 150))"
    by (simp_all add: w)
  from a b have c: "st_walletBalance (fst (snd ?ok)) = Num 150"
    and d: "map_option walletBalance (users_col (snd (snd ?ok)) ''u1'') = Some (Some (Num 150))"
    by auto
  have e: "handleAddFunds (Some exampleUser) (Num 50) (loadedPage, writeFails) =
     (Inl (FirestoreError ''unavailable''), loadedPage, writeFails)"
    by (simp add: handleAddFunds_def updateDoc_walletBalance_def)
  have f: "handleAddFunds None (Num 50) (loadedPage, exampleDb) =
     (Inl (Error ''User not found''), loadedPage, exampleDb)"
    by (simp add: handleAddFunds_def)
  from a c d e f show ?thesis by blast
qed

subsection \<open>Submitting the add-funds dialog\<close>

text \<open>
  Claim C4.  When the entered text parses to NaN or to a value that is at most 0, a submit
  shows \<^verbatim>\<open>Please enter a valid amount\<close>, leaves the submitting state and touches
  nothing outside the dialog, whatever the callbacks are: recording callbacks record no
  call.  Otherwise the add-funds callback is called once, with the parsed amount, followed
  by the close callback when it succeeds; every positive amount is passed on, however large.
\<close>

theorem handleSubmit_validation:
  "(isNaN (parseFloat (m_amount m)) \<or> js_le (parseFloat (m_amount m)) (Num 0) \<longrightarrow>
      handleSubmit onAddFunds onClose (m, w) =
        (m\<lparr>m_error := ''Please enter a valid amount'', m_isLoading := False\<rparr>, w) \<and>
      snd (handleSubmit (recordAddFunds outcome) recordClose (m, [])) = []) \<and>
   (\<not> (isNaN (parseFloat (m_amount m)) \<or> js_le (parseFloat (m_amount m)) (Num 0)) \<longrightarrow>
      snd (handleSubmit (recordAddFunds outcome) recordClose (m, [])) =
        OnAddFunds (parseFloat (m_amount m)) #
          (if outcome (parseFloat (m_amount m)) = None then [OnClose] else [])) \<and>
   (\<forall>r. 0 < r \<longrightarrow> parseFloat (m_amount m) = Num r \<longrightarrow>
      hd (snd (handleSubmit (recordAddFunds outcome) recordClose (m, []))) = OnAddFunds (Num r))"
  by (auto simp: handleSubmit_def recordAddFunds_def recordClose_def Let_def split: option.splits)

text \<open>
  The text \<^verbatim>\<open>25.50\<close> invokes the callback with 25.5; the texts \<^verbatim>\<open>-5\<close> and
  \<^verbatim>\<open>abc\<close> produce the message and no call.
\<close>

theorem handleSubmit_validation_witness:
  "handleSubmit (recordAddFunds (\<lambda>n. None)) recordClose
     (\<lparr>m_amount = ''25.50'', m_isLoading = False, m_error = []\<rparr>, []) =
     (\<lparr>m_amount = [], m_isLoading = False, m_error = []\<rparr>, [OnAddFunds (Num 25.5), OnClose]) \<and>
   handleSubmit (recordAddFunds (\<lambda>n. None)) recordClose
     (\<lparr>m_amount = ''-5'', m_isLoading = False, m_error = []\<rparr>, []) =
     (\<lparr>m_amount = ''-5'', m_isLoading = False, m_error = ''Please enter a valid amount''\<rparr>, []) \<and>
   handleSubmit (recordAddFunds (\<lambda>n. None)) recordClose
     (\<lparr>m_amount = ''abc'', m_isLoading = False, m_error = []\<rparr>, []) =
     (\<lparr>m_amount = ''abc'', m_isLoading = False, m_error = ''Please enter a valid amount''\<rparr>, [])"
proof -
  let ?f = "recordAddFunds (\<lambda>n. None)"
  have a: "handleSubmit ?f recordClose (\<lparr>m_amount = ''-5'', m_isLoading = False, m_error = []\<rparr>, []) =
     (\<lparr>m_amount = ''-5'', m_isLoading = False, m_error = ''Please enter a valid amount''\<rparr>, [])"
    using handleSubmit_validation [of "\<lparr>m_amount = ''-5'', m_isLoading = False, m_error = []\<rparr>" ?f recordClose "[]"]
    by (simp add: parseFloat_examples)
  have b: "handleSubmit ?f recordClose (\<lparr>m_amount = ''abc'', m_isLoading = False, m_error = []\<rparr>, []) =
     (\<lparr>m_amount = ''abc'', m_isLoading = False, m_error = ''Please enter a valid amount''\<rparr>, [])"
    using handleSubmit_validation [of "\<lparr>m_amount = ''abc'', m_isLoading = False, m_error = []\<rparr>" ?f recordClose "[]"]
    by (simp add: parseFloat_examples)
  have c: "handleSubmit ?f recordClose (\<lparr>m_amount = ''25.50'', m_isLoading = False, m_error = []\<rparr>, []) =
     (\<lparr>m_amount = [], m_isLoading = False, m_error = []\<rparr>, [OnAddFunds (Num 25.5), OnClose])"
    by (simp add: handleSubmit_def recordAddFunds_def recordClose_def parseFloat_examples)
  from a b c show ?thesis by blast
qed

text \<open>
  Claim C5.  On a submit with a valid amount: when the add-funds callback throws, the
  dialog shows \<^verbatim>\<open>Failed to add funds. Please try again.\<close>, leaves the submitting
  state, keeps the entered text, and the close callback is not called (the state outside
  the dialog is the one the failed callback left); when the callback succeeds, the dialog
  clears the text, leaves the submitting state and calls the close callback.
\<close>

theorem handleSubmit_callback_outcome:
  assumes valid: "\<not> isNaN (parseFloat (m_amount m))" "\<not> js_le (parseFloat (m_amount m)) (Num 0)"
    and call: "onAddFunds (parseFloat (m_amount m)) w = (r, w')"
  shows "(isl r \<longrightarrow>
            handleSubmit onAddFunds onClose (m, w) =
              (m\<lparr>m_error := ''Failed to add funds. Please try again.'', m_isLoading := False\<rparr>, w')) \<and>
         (\<not> isl r \<longrightarrow>
            handleSubmit onAddFunds onClose (m, w) =
              (m\<lparr>m_amount := [], m_error := [], m_isLoading := False\<rparr>, onClose w'))"
  using valid call by (cases r) (simp_all add: handleSubmit_def Let_def)

text \<open>
  On the page, with the dialog open and the text \<^verbatim>\<open>50\<close>: when the write fails the
  dialog stays open with the message and the text \<^verbatim>\<open>50\<close>; when it succeeds the
  text is cleared, the dialog is closed and the balance is 150.
\<close>

theorem handleSubmit_callback_outcome_witness:
  "submitAddFunds (Some exampleUser)
     (\<lparr>m_amount = ''50'', m_isLoading = True, m_error = []\<rparr>,
      loadedPage\<lparr>st_isAddFundsModalOpen := True\<rparr>, writeFails) =
     (\<lparr>m_amount = ''50'', m_isLoading = False, m_error = ''Failed to add funds. Please try again.''\<rparr>,
      loadedPage\<lparr>st_isAddFundsModalOpen := True\<rparr>, writeFails) \<and>
   fst (submitAddFunds (Some exampleUser)
     (\<lparr>m_amount = ''50'', m_isLoading = True, m_error = []\<rparr>,
      loadedPage\<lparr>st_isAddFundsModalOpen := True\<rparr>, exampleDb)) =
     \<lparr>m_amount = [], m_isLoading = False, m_error = []\<rparr> \<and>
   fst (snd (submitAddFunds (Some exampleUser)
     (\<lparr>m_amount = ''50'', m_isLoading = True, m_error = []\<rparr>,
      loadedPage\<lparr>st_isAddFundsModalOpen := True\<rparr>, exampleDb))) =
     loadedPage\<lparr>st_walletBalance := Num 150, st_isAddFundsModalOpen := False\<rparr>"
proof -
  let ?m = "\<lparr>m_amount = ''50'', m_isLoading = True, m_error = []\<rparr>"
  let ?st = "loadedPage\<lparr>st_isAddFundsModalOpen := True\<rparr>"
  have v: "\<not> isNaN (parseFloat (m_amount ?m))" "\<not> js_le (parseFloat (m_amount ?m)) (Num 0)"
    by (simp_all add: parseFloat_examples)
  have bad: "handleAddFunds (Some exampleUser) (parseFloat (m_amount ?m)) (?st, writeFails) =
      (Inl (FirestoreError ''unavailable''), ?st, writeFails)"
    by (simp add: parseFloat_examples handleAddFunds_def updateDoc_walletBalance_def)
  have good: "handleAddFunds (Some exampleUser) (parseFloat (m_amount ?m)) (?st, exampleDb) =
      (Inr (), ?st\<lparr>st_walletBalance := Num 150\<rparr>,
       exampleDb\<lparr>users_col := (users_col exampleDb)(''u1'' \<mapsto> exampleAccount\<lparr>walletBalance := Some (Num 150)\<rparr>)\<rparr>)"
    by (simp add: parseFloat_examples handleAddFunds_def updateDoc_walletBalance_ok Let_def)
  from handleSubmit_callback_outcome
    [where m = ?m and onAddFunds = "handleAddFunds (Some exampleUser)" and w = "(?st, writeFails)"
       and onClose = closeModal, OF v bad]
  have a: "submitAddFunds (Some exampleUser) (?m, ?st, writeFails) =
     (\<lparr>m_amount = ''50'', m_isLoading = False, m_error = ''Failed to add funds. Please try again.''\<rparr>,
      ?st, writeFails)"
    by (simp add: submitAddFunds_def)
  from handleSubmit_callback_outcome
    [where m = ?m and onAddFunds = "handleAddFunds (Some exampleUser)" and w = "(?st, exampleDb)"
       and onClose = closeModal, OF v good]
  have b: "submitAddFunds (Some exampleUser) (?m, ?st, exampleDb) =
     (\<lparr>m_amount = [], m_isLoading = False, m_error = []\<rparr>,
      loadedPage\<lparr>st_walletBalance := Num 150, st_isAddFundsModalOpen := False\<rparr>,
      exampleDb\<lparr>users_col := (users_col exampleDb)(''u1'' \<mapsto> exampleAccount\<lparr>walletBalance := Some (Num 150)\<rparr>)\<rparr>)"
    by (simp add: submitAddFunds_def closeModal_def)
  from a b show ?thesis by simp
qed

subsection \<open>The balance update does not validate\<close>

text \<open>
  Claim C10.  For a signed-in user whose document exists and whose write does not fail,
  \<^verbatim>\<open>handleAddFunds\<close> succeeds for every amount and stores the sum in the page and in
  the document: a NaN amount makes the balance NaN, and an amount below the negated balance
  makes it negative.  Only the submit handler of the dialog rejects such amounts: with a
  text that parses to NaN or to at most 0 a submit changes neither the page nor the
  database.
\<close>

theorem handleAddFunds_unvalidated:
  assumes acct: "users_col db (uid u) = Some ud"
    and up: "\<not> fault db (UpdateDoc ''users'' (uid u))"
  shows "handleAddFunds (Some u) amnt (st, db) =
           (Inr (), st\<lparr>st_walletBalance := js_add (st_walletBalance st) amnt\<rparr>,
            db\<lparr>users_col := (users_col db)(uid u \<mapsto>
                  ud\<lparr>walletBalance := Some (js_add (st_walletBalance st) amnt)\<rparr>)\<rparr>) \<and>
         (isNaN amnt \<longrightarrow>
            st_walletBalance (fst (snd (handleAddFunds (Some u) amnt (st, db)))) = NaN) \<and>
         (\<forall>a b. amnt = Num a \<longrightarrow> st_walletBalance st = Num b \<longrightarrow> a < - b \<longrightarrow>
            (\<exists>c<0. st_walletBalance (fst (snd (handleAddFunds (Some u) amnt (st, db)))) = Num c)) \<and>
         (isNaN (parseFloat s) \<or> js_le (parseFloat s) (Num 0) \<longrightarrow>
            snd (submitAddFunds (Some u) (m\<lparr>m_amount := s\<rparr>, st, db)) = (st, db))"
proof -
  have run: "handleAddFunds (Some u) amnt (st, db) =
           (Inr (), st\<lparr>st_walletBalance := js_add (st_walletBalance st) amnt\<rparr>,
            db\<lparr>users_col := (users_col db)(uid u \<mapsto>
                  ud\<lparr>walletBalance := Some (js_add (st_walletBalance st) amnt)\<rparr>)\<rparr>)"
    by (simp add: handleAddFunds_def updateDoc_walletBalance_ok [OF acct up] Let_def)
  have nan: "isNaN amnt \<longrightarrow> js_add (st_walletBalance st) amnt = NaN"
    by (cases amnt; cases "st_walletBalance st") simp_all
  have neg: "\<forall>a b. amnt = Num a \<longrightarrow> st_walletBalance st = Num b \<longrightarrow> a < - b \<longrightarrow>
            (\<exists>c<0. js_add (st_walletBalance st) amnt = Num c)"
    by auto
  have dlg: "isNaN (parseFloat s) \<or> js_le (parseFloat s) (Num 0) \<longrightarrow>
            snd (submitAddFunds (Some u) (m\<lparr>m_amount := s\<rparr>, st, db)) = (st, db)"
    by (auto simp: submitAddFunds_def handleSubmit_def Let_def)
  from nan neg dlg show ?thesis
    unfolding run by simp
qed

text \<open>
  With balance 100, the amount -150 gives the balance -50 and the amount NaN gives NaN, in
  the page and in the stored document; the dialog with the text \<^verbatim>\<open>-150\<close> changes
  nothing.
\<close>

theorem handleAddFunds_unvalidated_witness:
  "st_walletBalance (fst (snd (handleAddFunds (Some exampleUser) (Num (- 150)) (loadedPage, exampleDb)))) = Num (- 50) \<and>
   map_option walletBalance
     (users_col (snd (snd (handleAddFunds (Some exampleUser) (Num (- 150)) (loadedPage, exampleDb)))) ''u1'') =
     Some (Some (Num (- 50))) \<and>
   st_walletBalance (fst (snd (handleAddFunds (Some exampleUser) NaN (loadedPage, exampleDb)))) = NaN \<and>
   map_option walletBalance
     (users_col (snd (snd (handleAddFunds (Some exampleUser) NaN (loadedPage, exampleDb)))) ''u1'') =
     Some (Some NaN) \<and>
   snd (submitAddFunds (Some exampleUser)
     (\<lparr>m_amount = ''-150'', m_isLoading = False, m_error = []\<rparr>, loadedPage, exampleDb)) =
     (loadedPage, exampleDb)"
proof -
  have acct: "users_col exampleDb (uid exampleUser) = Some exampleAccount" by simp
  have up: "\<not> fault exampleDb (UpdateDoc ''users'' (uid exampleUser))" by simp
  have p: "parseFloat ''-150'' = Num (- 150)" by (simp add: parseFloat_defs)
  note inst = handleAddFunds_unvalidated [OF acct up]
  have a: "handleAddFunds (Some exampleUser) (Num (- 150)) (loadedPage, exampleDb) =
      (Inr (), loadedPage\<lparr>st_walletBalance := Num (- 50)\<rparr>,
       exampleDb\<lparr>users_col := (users_col exampleDb)(''u1'' \<mapsto> exampleAccount\<lparr>walletBalance := Some (Num (- 50))\<rparr>)\<rparr>)"
    using inst [of "Num (- 150)" loadedPage] by simp
  have b: "handleAddFunds (Some exampleUser) NaN (loadedPage, exampleDb) =
      (Inr (), loadedPage\<lparr>st_walletBalance := NaN\<rparr>,
       exampleDb\<lparr>users_col := (users_col exampleDb)(''u1'' \<mapsto> exampleAccount\<lparr>walletBalance := Some NaN\<rparr>)\<rparr>)"
    using inst [of NaN loadedPage] by simp
  have c: "snd (submitAddFunds (Some exampleUser)
     (\<lparr>m_amount = ''-150'', m_isLoading = False, m_error = []\<rparr>, loadedPage, exampleDb)) =
     (loadedPage, exampleDb)"
    using inst [of "Num 0" loadedPage "''-150''" "\<lparr>m_amount = ''-150'', m_isLoading = False, m_error = []\<rparr>"]
    by (simp add: p)
  show ?thesis
    unfolding a b c by simp
qed

end
